theory Spec2Isabelle
  imports Main
begin

section \<open>Data model\<close>

text \<open>
  The entity types (\<^verbatim>\<open>MasterKeyEntity\<close>, \<^verbatim>\<open>SyncInfo\<close>, the key pair) are declared outside
  \<^verbatim>\<open>services/e2ee/utils.ts\<close>; the records below carry the fields that file reads.
\<close>

text \<open>Modelled from the spec: MasterKey, section 3 (id, encrypted data, creation time, enabled).\<close>

record masterKey =
  key_id :: string
  content :: string
  created_time :: nat
  enabled :: bool

text \<open>Modelled from the spec: PrivateKeyPair, section 3.\<close>

record publicPrivateKeyPair =
  publicKey :: string
  privateKey :: string

text \<open>
  Modelled from the spec: SyncInfo, section 3. \<open>ppk = None\<close> is the absent key pair,
  \<open>activeMasterKeyId = []\<close> the unset active key id.
\<close>

record syncInfo =
  masterKeys :: "masterKey list"
  ppk :: "publicPrivateKeyPair option"
  activeMasterKeyId :: string
  e2ee :: bool

text \<open>
  The mutable world the functions of \<^verbatim>\<open>utils.ts\<close> act on: the local sync info
  (\<^verbatim>\<open>localSyncInfo()\<close> / \<^verbatim>\<open>saveLocalSyncInfo\<close>), the two settings
  \<^verbatim>\<open>encryption.masterPassword\<close> and \<^verbatim>\<open>encryption.passwordCache\<close>, and the state of
  the collaborators (the keys the EncryptionService has loaded, the item store), which
  \<^verbatim>\<open>utils.ts\<close> only reaches through their methods.
\<close>

record 'w state =
  localSyncInfo :: syncInfo
  masterPassword :: string
  passwordCache :: "string \<rightharpoonup> string"
  collaborators :: 'w

text \<open>A thrown JavaScript error: its message and, for a \<^verbatim>\<open>JoplinError\<close>, its code.\<close>

datatype error = Error (message: string) (code: "string option")

text \<open>JavaScript truthiness of a string, and of a reference that may be null.\<close>

definition truthy :: "string \<Rightarrow> bool" where
  "truthy s = (s \<noteq> [])"

definition present :: "'a option \<Rightarrow> bool" where
  "present x = (x \<noteq> None)"

section \<open>Programs: state and exceptions\<close>

text \<open>
  A program runs on a state and ends with a value or a thrown error, together with the
  state it leaves behind. A throw keeps the state reached so far.
\<close>

type_synonym ('s, 'a) prog = "'s \<Rightarrow> (error + 'a) \<times> 's"

definition returnM :: "'a \<Rightarrow> ('s, 'a) prog" where
  "returnM v s = (Inr v, s)"

definition throwM :: "error \<Rightarrow> ('s, 'a) prog" where
  "throwM e s = (Inl e, s)"

definition bindM :: "('s, 'a) prog \<Rightarrow> ('a \<Rightarrow> ('s, 'b) prog) \<Rightarrow> ('s, 'b) prog" where
  "bindM m f s = (case m s of (Inl e, s') \<Rightarrow> (Inl e, s') | (Inr v, s') \<Rightarrow> f v s')"

definition tryCatch :: "('s, 'a) prog \<Rightarrow> (error \<Rightarrow> ('s, 'a) prog) \<Rightarrow> ('s, 'a) prog" where
  "tryCatch m h s = (case m s of (Inl e, s') \<Rightarrow> h e s' | (Inr v, s') \<Rightarrow> (Inr v, s'))"

definition getM :: "('s \<Rightarrow> 'a) \<Rightarrow> ('s, 'a) prog" where
  "getM f s = (Inr (f s), s)"

definition modifyM :: "('s \<Rightarrow> 's) \<Rightarrow> ('s, unit) prog" where
  "modifyM f s = (Inr (), f s)"

text \<open>A collaborator's method: it runs on the collaborators' state only.\<close>

definition onCollaborators :: "('w, 'a) prog \<Rightarrow> ('w state, 'a) prog" where
  "onCollaborators m s = (case m (collaborators s) of (r, w') \<Rightarrow> (r, s\<lparr>collaborators := w'\<rparr>))"

section \<open>Password resolution\<close>

text \<open>
  \<^verbatim>\<open>findMasterKeyPassword\<close> (utils.ts 113-124). \<open>checkMasterKeyPassword\<close> is the
  EncryptionService's method, which answers false on a wrong password and does not
  throw (section 6); the result \<open>None\<close> is JavaScript's \<^verbatim>\<open>undefined\<close>, what
  \<^verbatim>\<open>passwords[masterKey.id]\<close> gives for an id the cache does not hold.
\<close>

definition findMasterKeyPassword ::
  "(masterKey \<Rightarrow> string \<Rightarrow> bool) \<Rightarrow> 'w state \<Rightarrow> masterKey \<Rightarrow> string option" where
  "findMasterKeyPassword checkMasterKeyPassword st mk =
     (let pw = masterPassword st in
      if truthy pw \<and> checkMasterKeyPassword mk pw then Some pw
      else (let passwords = passwordCache st in passwords (key_id mk)))"

section \<open>Loading the master keys\<close>

text \<open>
  Modelled from the spec: \<^verbatim>\<open>MasterKey.all()\<close> and \<^verbatim>\<open>getActiveMasterKeyId()\<close> are not in
  \<^verbatim>\<open>utils.ts\<close>; the key registry is the key list of the sync info (section 2), the
  active id its \<open>activeMasterKeyId\<close>.
\<close>

definition MasterKey_all :: "'w state \<Rightarrow> masterKey list" where
  "MasterKey_all st = masterKeys (localSyncInfo st)"

definition getActiveMasterKeyId :: "'w state \<Rightarrow> string" where
  "getActiveMasterKeyId st = activeMasterKeyId (localSyncInfo st)"

text \<open>
  The loop of \<^verbatim>\<open>loadMasterKeysFromSettings\<close> (utils.ts 132-144). \<open>isMasterKeyLoaded\<close>
  reads the service, \<open>loadMasterKey\<close> is any program on it: it may throw and may
  change the service before it throws. Logging is left out.
\<close>

primrec loadMasterKeys_loop ::
  "(masterKey \<Rightarrow> string \<Rightarrow> bool) \<Rightarrow> ('w \<Rightarrow> masterKey \<Rightarrow> bool) \<Rightarrow>
   (masterKey \<Rightarrow> string \<Rightarrow> bool \<Rightarrow> ('w, unit) prog) \<Rightarrow> string \<Rightarrow>
   masterKey list \<Rightarrow> ('w state, unit) prog" where
  "loadMasterKeys_loop checkMasterKeyPassword isMasterKeyLoaded loadMasterKey activeId [] =
     returnM ()"
| "loadMasterKeys_loop checkMasterKeyPassword isMasterKeyLoaded loadMasterKey activeId (mk # mks) =
     bindM (getM (\<lambda>s. isMasterKeyLoaded (collaborators s) mk)) (\<lambda>loaded.
       if loaded
       then loadMasterKeys_loop checkMasterKeyPassword isMasterKeyLoaded loadMasterKey activeId mks
       else bindM (getM (\<lambda>s. findMasterKeyPassword checkMasterKeyPassword s mk)) (\<lambda>password.
         case password of
           None \<Rightarrow>
             loadMasterKeys_loop checkMasterKeyPassword isMasterKeyLoaded loadMasterKey activeId mks
         | Some p \<Rightarrow>
             if \<not> truthy p
             then loadMasterKeys_loop checkMasterKeyPassword isMasterKeyLoaded loadMasterKey activeId mks
             else bindM
               (tryCatch (onCollaborators (loadMasterKey mk p (activeId = key_id mk)))
                  (\<lambda>err. returnM ()))
               (\<lambda>_. loadMasterKeys_loop checkMasterKeyPassword isMasterKeyLoaded loadMasterKey
                  activeId mks)))"

definition loadMasterKeysFromSettings ::
  "(masterKey \<Rightarrow> string \<Rightarrow> bool) \<Rightarrow> ('w \<Rightarrow> masterKey \<Rightarrow> bool) \<Rightarrow>
   (masterKey \<Rightarrow> string \<Rightarrow> bool \<Rightarrow> ('w, unit) prog) \<Rightarrow> ('w state, unit) prog" where
  "loadMasterKeysFromSettings checkMasterKeyPassword isMasterKeyLoaded loadMasterKey =
     bindM (getM MasterKey_all) (\<lambda>allKeys.
     bindM (getM getActiveMasterKeyId) (\<lambda>activeMasterKeyId.
       loadMasterKeys_loop checkMasterKeyPassword isMasterKeyLoaded loadMasterKey
         activeMasterKeyId allKeys))"

section \<open>The missing master key message\<close>

text \<open>Modelled from the spec: \<^verbatim>\<open>masterKeyEnabled\<close> (syncInfoUtils) reads the key's enabled flag.\<close>

definition masterKeyEnabled :: "masterKey \<Rightarrow> bool" where
  "masterKeyEnabled mk = enabled mk"

text \<open>
  The loop of \<^verbatim>\<open>showMissingMasterKeyMessage\<close> (utils.ts 154-165): the counter is
  \<open>i + 1\<close>, so it runs \<open>i\<close> from \<open>length - 1\<close> down to \<open>0\<close>; \<^verbatim>\<open>pop()\<close> drops the last
  element of the copied array. An index past the end reads \<^verbatim>\<open>undefined\<close>, which no key
  id equals.
\<close>

fun showMissing_loop :: "masterKey list \<Rightarrow> nat \<Rightarrow> string list \<Rightarrow> string list" where
  "showMissing_loop mks 0 notLoaded = notLoaded"
| "showMissing_loop mks (Suc i) notLoaded =
     (case (if i < length notLoaded
            then find (\<lambda>mk. key_id mk = notLoaded ! i) mks else None) of
        None \<Rightarrow> showMissing_loop mks i notLoaded
      | Some mk \<Rightarrow>
          if \<not> masterKeyEnabled mk then showMissing_loop mks i (butlast notLoaded)
          else showMissing_loop mks i notLoaded)"

definition showMissingMasterKeyMessage :: "syncInfo \<Rightarrow> string list \<Rightarrow> bool" where
  "showMissingMasterKeyMessage info notLoadedMasterKeys =
     (if length (masterKeys info) = 0 then False
      else length (showMissing_loop (masterKeys info) (length notLoadedMasterKeys)
             notLoadedMasterKeys) \<noteq> 0)"

section \<open>The default master key and the validity of the master password\<close>

text \<open>
  Modelled from the spec: \<^verbatim>\<open>getActiveMasterKey\<close> (syncInfoUtils) is not in \<^verbatim>\<open>utils.ts\<close>.
  By invariant I3 (section 3) an active id that is unset, or that names no key of the
  sync info, gives no active key.
\<close>

definition getActiveMasterKey :: "syncInfo \<Rightarrow> masterKey option" where
  "getActiveMasterKey info =
     (if \<not> truthy (activeMasterKeyId info) then None
      else find (\<lambda>mk. key_id mk = activeMasterKeyId info) (masterKeys info))"

text \<open>
  Modelled from the spec: \<^verbatim>\<open>MasterKey.latest()\<close> is not in \<^verbatim>\<open>utils.ts\<close>; it is the
  most recently created known key (section 4.7), the first of them when several share
  the latest creation time, and null when there is no key.
\<close>

fun latest_loop :: "masterKey option \<Rightarrow> masterKey list \<Rightarrow> masterKey option" where
  "latest_loop out [] = out"
| "latest_loop out (mk # mks) =
     (case out of
        None \<Rightarrow> latest_loop (Some mk) mks
      | Some cur \<Rightarrow>
          if created_time cur < created_time mk then latest_loop (Some mk) mks
          else latest_loop out mks)"

definition MasterKey_latest :: "syncInfo \<Rightarrow> masterKey option" where
  "MasterKey_latest info = latest_loop None (masterKeys info)"

text \<open>\<^verbatim>\<open>getDefaultMasterKey\<close> (utils.ts 170-174).\<close>

definition getDefaultMasterKey :: "'w state \<Rightarrow> masterKey option" where
  "getDefaultMasterKey st =
     (case getActiveMasterKey (localSyncInfo st) of
        Some mk \<Rightarrow> Some mk
      | None \<Rightarrow> MasterKey_latest (localSyncInfo st))"

definition UndefinedMasterPassword :: error where
  "UndefinedMasterPassword = Error ''Master password is not set'' (Some ''undefinedMasterPassword'')"

definition NoKeyToDecrypt :: error where
  "NoKeyToDecrypt =
     Error ''Cannot check master password validity as no key is present'' (Some ''noKeyToDecrypt'')"

text \<open>\<^verbatim>\<open>getMasterPassword\<close> (utils.ts 179-183).\<close>

definition getMasterPassword :: "bool \<Rightarrow> ('w state, string) prog" where
  "getMasterPassword throwIfNotSet =
     bindM (getM masterPassword) (\<lambda>password.
       if \<not> truthy password \<and> throwIfNotSet then throwM UndefinedMasterPassword
       else returnM password)"

text \<open>
  \<^verbatim>\<open>masterPasswordIsValid\<close> (utils.ts 259-275). \<open>ppkPasswordIsValid\<close> is the key pair
  collaborator's check, \<open>checkMasterKeyPassword\<close> the EncryptionService's; both answer
  with a boolean (section 6).
\<close>

definition masterPasswordIsValid ::
  "(publicPrivateKeyPair \<Rightarrow> string \<Rightarrow> bool) \<Rightarrow> (masterKey \<Rightarrow> string \<Rightarrow> bool) \<Rightarrow>
   string \<Rightarrow> ('w state, bool) prog" where
  "masterPasswordIsValid ppkPasswordIsValid checkMasterKeyPassword pw =
     bindM (getM (\<lambda>s. ppk (localSyncInfo s))) (\<lambda>p.
       case p of
         Some pair \<Rightarrow> returnM (ppkPasswordIsValid pair pw)
       | None \<Rightarrow>
           bindM (getM getDefaultMasterKey) (\<lambda>k.
             case k of
               Some mk \<Rightarrow> returnM (checkMasterKeyPassword mk pw)
             | None \<Rightarrow> throwM NoKeyToDecrypt))"

datatype MasterPasswordStatus = Unknown | Loaded | NotSet | Invalid | Valid

text \<open>\<^verbatim>\<open>getMasterPasswordStatus\<close> (utils.ts 234-245).\<close>

definition getMasterPasswordStatus ::
  "(publicPrivateKeyPair \<Rightarrow> string \<Rightarrow> bool) \<Rightarrow> (masterKey \<Rightarrow> string \<Rightarrow> bool) \<Rightarrow>
   ('w state, MasterPasswordStatus) prog" where
  "getMasterPasswordStatus ppkPasswordIsValid checkMasterKeyPassword =
     bindM (getMasterPassword False) (\<lambda>password.
       if \<not> truthy password then returnM NotSet
       else tryCatch
         (bindM (masterPasswordIsValid ppkPasswordIsValid checkMasterKeyPassword password)
            (\<lambda>isValid. returnM (if isValid then Valid else Invalid)))
         (\<lambda>err. if code err = Some ''noKeyToDecrypt'' then returnM Loaded else throwM err))"

section \<open>Migration of the master password\<close>

text \<open>
  The cache without the entries whose password is the new master password
  (utils.ts 97-103): a copy of the cache, from which every such entry is deleted.
\<close>

definition purgeCache :: "(string \<rightharpoonup> string) \<Rightarrow> string \<Rightarrow> (string \<rightharpoonup> string)" where
  "purgeCache cache pw = (\<lambda>mkId. if cache mkId = Some pw then None else cache mkId)"

text \<open>
  \<^verbatim>\<open>migrateMasterPassword\<close> (utils.ts 77-107). \<^verbatim>\<open>Setting.saveAll()\<close> writes the settings
  out and changes none of their values.
\<close>

definition migrateMasterPassword :: "('w state, unit) prog" where
  "migrateMasterPassword =
     bindM (getM masterPassword) (\<lambda>current.
       if truthy current then returnM ()
       else bindM (getM (\<lambda>s. ppk (localSyncInfo s))) (\<lambda>p.
         if present p then returnM ()
         else bindM (getM (\<lambda>s. getActiveMasterKey (localSyncInfo s))) (\<lambda>active.
           case active of
             None \<Rightarrow> returnM ()
           | Some mk \<Rightarrow>
               bindM (getM (\<lambda>s. passwordCache s (key_id mk))) (\<lambda>cached.
                 case cached of
                   None \<Rightarrow> returnM ()
                 | Some pw \<Rightarrow>
                     if \<not> truthy pw then returnM ()
                     else bindM (modifyM (\<lambda>s. s\<lparr>masterPassword := pw\<rparr>)) (\<lambda>_.
                          bindM (getM passwordCache) (\<lambda>cache.
                          modifyM (\<lambda>s. s\<lparr>passwordCache := purgeCache cache pw\<rparr>)))))))"

section \<open>Changing the master password\<close>

definition MissingCurrentPassword :: error where
  "MissingCurrentPassword =
     Error ''Previous password must be provided in order to reencrypt the encryption keys'' None"

text \<open>The errors rethrown at utils.ts 196-197 and 205-206: the message is rewritten, the code kept.\<close>

definition masterKeyReencryptionFailed :: "masterKey \<Rightarrow> error \<Rightarrow> error" where
  "masterKeyReencryptionFailed mk err =
     Error (''Master key '' @ key_id mk @
            '' could not be reencrypted - this is most likely due to an incorrect password. Please try again. Error was: '' @
            message err)
       (code err)"

definition privateKeyReencryptionFailed :: "error \<Rightarrow> error" where
  "privateKeyReencryptionFailed err =
     Error (''Private key could not be reencrypted - this is most likely due to an incorrect password. Please try again. Error was: '' @
            message err)
       (code err)"

text \<open>
  The staging loop (utils.ts 192-199). \<open>reencryptMasterKey\<close> is the EncryptionService's
  method, any program on the collaborators' state.
\<close>

primrec reencrypt_loop ::
  "(masterKey \<Rightarrow> string \<Rightarrow> string \<Rightarrow> ('w, masterKey) prog) \<Rightarrow> string \<Rightarrow> string \<Rightarrow>
   masterKey list \<Rightarrow> masterKey list \<Rightarrow> ('w state, masterKey list) prog" where
  "reencrypt_loop reencryptMasterKey currentPassword newPassword [] =
     (\<lambda>reencryptedMasterKeys. returnM reencryptedMasterKeys)"
| "reencrypt_loop reencryptMasterKey currentPassword newPassword (mk # mks) =
     (\<lambda>reencryptedMasterKeys.
        bindM
          (tryCatch (onCollaborators (reencryptMasterKey mk currentPassword newPassword))
             (\<lambda>err. throwM (masterKeyReencryptionFailed mk err)))
          (\<lambda>reencrypted.
             reencrypt_loop reencryptMasterKey currentPassword newPassword mks
               (reencryptedMasterKeys @ [reencrypted])))"

text \<open>
  Modelled from the spec: \<^verbatim>\<open>MasterKey.save\<close> is not in \<^verbatim>\<open>utils.ts\<close>; it persists a key
  in the registry (section 4.5, step 3), in place of the key with the same id, or as a
  new key when the registry has none with that id.
\<close>

fun replaceKey :: "masterKey \<Rightarrow> masterKey list \<Rightarrow> masterKey list" where
  "replaceKey mk [] = [mk]"
| "replaceKey mk (k # ks) = (if key_id k = key_id mk then mk # ks else k # replaceKey mk ks)"

definition MasterKey_save :: "masterKey \<Rightarrow> 'w state \<Rightarrow> 'w state" where
  "MasterKey_save mk st =
     st\<lparr>localSyncInfo := (localSyncInfo st)\<lparr>masterKeys := replaceKey mk (masterKeys (localSyncInfo st))\<rparr>\<rparr>"

text \<open>The persisting loop (utils.ts 210-212).\<close>

primrec save_loop :: "masterKey list \<Rightarrow> ('w state, unit) prog" where
  "save_loop [] = returnM ()"
| "save_loop (mk # mks) = bindM (modifyM (MasterKey_save mk)) (\<lambda>_. save_loop mks)"

text \<open>
  \<^verbatim>\<open>updateMasterPassword\<close> (utils.ts 185-224). \<open>pkReencryptPrivateKey\<close> is the key pair
  collaborator's method. \<open>waitForSyncFinishedThenSync\<close> is the optional callback
  (\<open>None\<close> is the default \<^verbatim>\<open>null\<close>); it is started and not awaited, so only what it does
  to the state is kept.
\<close>

definition updateMasterPassword ::
  "(masterKey \<Rightarrow> string \<Rightarrow> string \<Rightarrow> ('w, masterKey) prog) \<Rightarrow>
   (publicPrivateKeyPair \<Rightarrow> string \<Rightarrow> string \<Rightarrow> ('w, publicPrivateKeyPair) prog) \<Rightarrow>
   ('w state \<Rightarrow> 'w state) option \<Rightarrow> string \<Rightarrow> string \<Rightarrow> ('w state, unit) prog" where
  "updateMasterPassword reencryptMasterKey pkReencryptPrivateKey waitForSyncFinishedThenSync
       currentPassword newPassword =
     bindM
       (bindM (getM localSyncInfo) (\<lambda>info.
          if present (ppk info) \<or> 0 < length (masterKeys info) then
            if \<not> truthy currentPassword then throwM MissingCurrentPassword
            else
              bindM (getM (\<lambda>s. masterKeys (localSyncInfo s))) (\<lambda>mks.
              bindM (reencrypt_loop reencryptMasterKey currentPassword newPassword mks [])
                (\<lambda>reencryptedMasterKeys.
              bindM (getM (\<lambda>s. ppk (localSyncInfo s))) (\<lambda>p.
              bindM
                (case p of
                   None \<Rightarrow> returnM None
                 | Some pair \<Rightarrow>
                     bindM
                       (tryCatch
                          (onCollaborators (pkReencryptPrivateKey pair currentPassword newPassword))
                          (\<lambda>err. throwM (privateKeyReencryptionFailed err)))
                       (\<lambda>r. returnM (Some r)))
                (\<lambda>reencryptedPpk.
              bindM (save_loop reencryptedMasterKeys) (\<lambda>_.
                case reencryptedPpk of
                  None \<Rightarrow> returnM ()
                | Some r \<Rightarrow>
                    modifyM (\<lambda>s. s\<lparr>localSyncInfo := (localSyncInfo s)\<lparr>ppk := Some r\<rparr>\<rparr>))))))
          else returnM ()))
       (\<lambda>_.
          bindM (modifyM (\<lambda>s. s\<lparr>masterPassword := newPassword\<rparr>)) (\<lambda>_.
            case waitForSyncFinishedThenSync of
              None \<Rightarrow> returnM ()
            | Some callback \<Rightarrow> modifyM callback))"

section \<open>Enabling encryption\<close>

text \<open>
  Modelled from the spec: \<^verbatim>\<open>setEncryptionEnabled\<close> (syncInfoUtils) is not in
  \<^verbatim>\<open>utils.ts\<close>; it sets the enabled flag and, when a key id is given, the active key id
  (section 4.1).
\<close>

definition setEncryptionEnabled :: "bool \<Rightarrow> string option \<Rightarrow> 'w state \<Rightarrow> 'w state" where
  "setEncryptionEnabled v activeId st =
     st\<lparr>localSyncInfo :=
          (case activeId of
             None \<Rightarrow> (localSyncInfo st)\<lparr>e2ee := v\<rparr>
           | Some i \<Rightarrow>
               if truthy i then (localSyncInfo st)\<lparr>e2ee := v, activeMasterKeyId := i\<rparr>
               else (localSyncInfo st)\<lparr>e2ee := v\<rparr>)\<rparr>"

text \<open>
  \<^verbatim>\<open>setupAndEnableEncryption\<close> (utils.ts 13-32). The key and the password default to
  \<^verbatim>\<open>null\<close> (\<open>None\<close>); \<open>markAllNonEncryptedForSync\<close> is the item store's method.
\<close>

definition setupAndEnableEncryption ::
  "(masterKey \<Rightarrow> string \<Rightarrow> bool) \<Rightarrow> ('w \<Rightarrow> masterKey \<Rightarrow> bool) \<Rightarrow>
   (masterKey \<Rightarrow> string \<Rightarrow> bool \<Rightarrow> ('w, unit) prog) \<Rightarrow> ('w, unit) prog \<Rightarrow>
   masterKey option \<Rightarrow> string option \<Rightarrow> ('w state, unit) prog" where
  "setupAndEnableEncryption checkMasterKeyPassword isMasterKeyLoaded loadMasterKey
       markAllNonEncryptedForSync masterKey newMasterPassword =
     bindM (modifyM (setEncryptionEnabled True (map_option key_id masterKey))) (\<lambda>_.
     bindM
       (case newMasterPassword of
          None \<Rightarrow> returnM ()
        | Some pw \<Rightarrow>
            if truthy pw then modifyM (\<lambda>s. s\<lparr>masterPassword := pw\<rparr>) else returnM ())
       (\<lambda>_.
     bindM (onCollaborators markAllNonEncryptedForSync) (\<lambda>_.
       loadMasterKeysFromSettings checkMasterKeyPassword isMasterKeyLoaded loadMasterKey)))"

section \<open>What a call leaves in the store\<close>

text \<open>
  Two states hold the same persisted data: the sync info (every master key with its
  ciphertext, the key pair, the active key id), the master password and the password
  cache.
\<close>

definition sameStore :: "'w state \<Rightarrow> 'w state \<Rightarrow> bool" where
  "sameStore s s' =
     (localSyncInfo s' = localSyncInfo s \<and> masterPassword s' = masterPassword s \<and>
      passwordCache s' = passwordCache s)"

section \<open>Example collaborators and states\<close>

text \<open>
  A toy EncryptionService for the examples: a ciphertext is the password, a bar and the
  plain text; the service's state is the list of the ids of the loaded keys.
\<close>

definition demo_encrypt :: "string \<Rightarrow> string \<Rightarrow> string" where
  "demo_encrypt pw plain = pw @ ''|'' @ plain"

definition demo_checkMasterKeyPassword :: "masterKey \<Rightarrow> string \<Rightarrow> bool" where
  "demo_checkMasterKeyPassword mk pw = (content mk = demo_encrypt pw (key_id mk))"

definition demo_ppkPasswordIsValid :: "publicPrivateKeyPair \<Rightarrow> string \<Rightarrow> bool" where
  "demo_ppkPasswordIsValid pair pw = (privateKey pair = demo_encrypt pw ''private'')"

definition InvalidPassword :: error where
  "InvalidPassword = Error ''Invalid password'' None"

definition demo_reencryptMasterKey ::
  "masterKey \<Rightarrow> string \<Rightarrow> string \<Rightarrow> (string list, masterKey) prog" where
  "demo_reencryptMasterKey mk cur new =
     (if demo_checkMasterKeyPassword mk cur
      then returnM (mk\<lparr>content := demo_encrypt new (key_id mk)\<rparr>)
      else throwM InvalidPassword)"

definition demo_pkReencryptPrivateKey ::
  "publicPrivateKeyPair \<Rightarrow> string \<Rightarrow> string \<Rightarrow> (string list, publicPrivateKeyPair) prog" where
  "demo_pkReencryptPrivateKey pair cur new =
     (if demo_ppkPasswordIsValid pair cur
      then returnM (pair\<lparr>privateKey := demo_encrypt new ''private''\<rparr>)
      else throwM InvalidPassword)"

definition demo_isMasterKeyLoaded :: "string list \<Rightarrow> masterKey \<Rightarrow> bool" where
  "demo_isMasterKeyLoaded loadedIds mk = (key_id mk \<in> set loadedIds)"

definition demo_loadMasterKey :: "masterKey \<Rightarrow> string \<Rightarrow> bool \<Rightarrow> (string list, unit) prog" where
  "demo_loadMasterKey mk pw makeActive =
     (if demo_checkMasterKeyPassword mk pw
      then modifyM (\<lambda>loadedIds. key_id mk # loadedIds)
      else throwM InvalidPassword)"

text \<open>Three keys: the first and the third under the password pwA, the second (a legacy key) under pwC.\<close>

definition demo_mk1 :: masterKey where
  "demo_mk1 = \<lparr>key_id = ''mk1'', content = ''pwA|mk1'', created_time = 1, enabled = True\<rparr>"

definition demo_mk2 :: masterKey where
  "demo_mk2 = \<lparr>key_id = ''mk2'', content = ''pwC|mk2'', created_time = 2, enabled = True\<rparr>"

definition demo_mk3 :: masterKey where
  "demo_mk3 = \<lparr>key_id = ''mk3'', content = ''pwA|mk3'', created_time = 3, enabled = True\<rparr>"

definition demo_ppk :: publicPrivateKeyPair where
  "demo_ppk = \<lparr>publicKey = ''public'', privateKey = ''pwA|private''\<rparr>"

text \<open>
  Master password pwA, the three keys and a key pair; the cache holds another password
  for the first key and a stale one, which opens nothing, for the second.
\<close>

definition demo_state :: "string list state" where
  "demo_state =
     \<lparr>localSyncInfo =
        \<lparr>masterKeys = [demo_mk1, demo_mk2, demo_mk3], ppk = Some demo_ppk,
         activeMasterKeyId = ''mk1'', e2ee = True\<rparr>,
      masterPassword = ''pwA'',
      passwordCache = [''mk1'' \<mapsto> ''pw1'', ''mk2'' \<mapsto> ''stale''],
      collaborators = []\<rparr>"

text \<open>A legacy installation: no master password, no key pair, per-key passwords only.\<close>

definition demo_legacy_state :: "string list state" where
  "demo_legacy_state =
     \<lparr>localSyncInfo =
        \<lparr>masterKeys = [demo_mk1, demo_mk2], ppk = None,
         activeMasterKeyId = ''mk1'', e2ee = True\<rparr>,
      masterPassword = [],
      passwordCache = [''mk1'' \<mapsto> ''pwA'', ''mk2'' \<mapsto> ''pwC''],
      collaborators = []\<rparr>"

text \<open>No key and no key pair; a master password is stored.\<close>

definition demo_keyless_state :: "string list state" where
  "demo_keyless_state =
     \<lparr>localSyncInfo = \<lparr>masterKeys = [], ppk = None, activeMasterKeyId = [], e2ee = False\<rparr>,
      masterPassword = ''abc'',
      passwordCache = Map.empty,
      collaborators = []\<rparr>"

section \<open>Properties\<close>

lemmas prog_defs =
  returnM_def throwM_def bindM_def tryCatch_def getM_def modifyM_def onCollaborators_def

lemmas demo_defs =
  demo_encrypt_def demo_checkMasterKeyPassword_def demo_ppkPasswordIsValid_def
  demo_reencryptMasterKey_def demo_pkReencryptPrivateKey_def demo_isMasterKeyLoaded_def
  demo_loadMasterKey_def demo_mk1_def demo_mk2_def demo_mk3_def demo_ppk_def demo_state_def
  demo_legacy_state_def demo_keyless_state_def InvalidPassword_def

subsection \<open>Password precedence\<close>

text \<open>
  Claim C4. For every master key, \<open>findMasterKeyPassword\<close> returns the master password
  whenever it is set and \<open>checkMasterKeyPassword\<close> accepts it for this key, whatever the
  password cache holds for the key; in every other case it returns the cache's entry
  for the key's id, and the check is not asked about that entry.
\<close>

theorem findMasterKeyPassword_precedence:
  "(truthy (masterPassword st) \<and> checkMasterKeyPassword mk (masterPassword st)
      \<longrightarrow> findMasterKeyPassword checkMasterKeyPassword st mk = Some (masterPassword st))
   \<and> (\<not> (truthy (masterPassword st) \<and> checkMasterKeyPassword mk (masterPassword st))
      \<longrightarrow> findMasterKeyPassword checkMasterKeyPassword st mk = passwordCache st (key_id mk))"
  by (simp add: findMasterKeyPassword_def Let_def)

text \<open>
  The first key opens with the master password pwA although the cache holds pw1 for it;
  the second does not, and gets its cached password, which the check rejects.
\<close>

theorem findMasterKeyPassword_precedence_witness:
  "findMasterKeyPassword demo_checkMasterKeyPassword demo_state demo_mk1 = Some ''pwA''
   \<and> passwordCache demo_state (key_id demo_mk1) = Some ''pw1''
   \<and> findMasterKeyPassword demo_checkMasterKeyPassword demo_state demo_mk2 = Some ''stale''
   \<and> \<not> demo_checkMasterKeyPassword demo_mk2 ''stale''"
  using findMasterKeyPassword_precedence [of demo_state demo_checkMasterKeyPassword demo_mk1]
    findMasterKeyPassword_precedence [of demo_state demo_checkMasterKeyPassword demo_mk2]
  by (simp add: demo_defs truthy_def)

subsection \<open>Loading never raises\<close>

lemma loadMasterKeys_loop_returns:
  "fst (loadMasterKeys_loop chk isL load a mks s) = Inr ()"
  by (induction mks arbitrary: s)
     (simp_all add: prog_defs split: prod.splits sum.splits option.splits)

lemma loadMasterKeys_loop_store:
  "sameStore s (snd (loadMasterKeys_loop chk isL load a mks s))"
proof (induction mks arbitrary: s)
  case Nil
  show ?case by (simp add: prog_defs sameStore_def)
next
  case (Cons mk mks)
  have step: "sameStore s (snd (loadMasterKeys_loop chk isL load a mks (s\<lparr>collaborators := w\<rparr>)))"
    for w
    using Cons.IH [of "s\<lparr>collaborators := w\<rparr>"] by (simp add: sameStore_def)
  show ?case
    using Cons.IH [of s] step
    by (simp add: prog_defs split: prod.splits sum.splits option.splits)
qed

lemma loadMasterKeysFromSettings_store:
  "sameStore s (snd (loadMasterKeysFromSettings chk isL load s))"
  using loadMasterKeys_loop_store
  by (simp add: loadMasterKeysFromSettings_def bindM_def getM_def)

text \<open>
  Claim C8. \<open>loadMasterKeysFromSettings\<close> never raises, whatever the keys and whatever
  \<open>loadMasterKey\<close> does (first conjunct). In the loop, a key the service has loaded is
  skipped (second), a key for which no password, or an empty one, is found is skipped
  (third), and when \<open>loadMasterKey\<close> throws for a key the error is caught and the loop
  goes on with the remaining keys, from the state the failed call left (fourth).
\<close>

theorem loadMasterKeysFromSettings_never_raises:
  "fst (loadMasterKeysFromSettings checkMasterKeyPassword isMasterKeyLoaded loadMasterKey s) = Inr ()
   \<and> (isMasterKeyLoaded (collaborators s) mk \<longrightarrow>
        loadMasterKeys_loop checkMasterKeyPassword isMasterKeyLoaded loadMasterKey a (mk # mks) s
        = loadMasterKeys_loop checkMasterKeyPassword isMasterKeyLoaded loadMasterKey a mks s)
   \<and> (\<not> isMasterKeyLoaded (collaborators s) mk \<longrightarrow>
        (findMasterKeyPassword checkMasterKeyPassword s mk = None
         \<or> findMasterKeyPassword checkMasterKeyPassword s mk = Some []) \<longrightarrow>
        loadMasterKeys_loop checkMasterKeyPassword isMasterKeyLoaded loadMasterKey a (mk # mks) s
        = loadMasterKeys_loop checkMasterKeyPassword isMasterKeyLoaded loadMasterKey a mks s)
   \<and> (\<not> isMasterKeyLoaded (collaborators s) mk \<longrightarrow>
        findMasterKeyPassword checkMasterKeyPassword s mk = Some p \<longrightarrow> truthy p \<longrightarrow>
        loadMasterKey mk p (a = key_id mk) (collaborators s) = (Inl e, w) \<longrightarrow>
        loadMasterKeys_loop checkMasterKeyPassword isMasterKeyLoaded loadMasterKey a (mk # mks) s
        = loadMasterKeys_loop checkMasterKeyPassword isMasterKeyLoaded loadMasterKey a mks
            (s\<lparr>collaborators := w\<rparr>))"
proof -
  have "fst (loadMasterKeysFromSettings checkMasterKeyPassword isMasterKeyLoaded loadMasterKey s)
      = Inr ()"
    using loadMasterKeys_loop_returns
    by (simp add: loadMasterKeysFromSettings_def bindM_def getM_def)
  then show ?thesis
    by (simp add: prog_defs truthy_def)
qed

text \<open>
  On the example state the first key loads with the master password, the second is
  tried with its stale cached password and fails, and the third still loads. The three
  step equations are the theorem at a failing key, at a loaded key and at a key without
  a password.
\<close>

theorem loadMasterKeysFromSettings_never_raises_witness:
  "loadMasterKeysFromSettings demo_checkMasterKeyPassword demo_isMasterKeyLoaded
     demo_loadMasterKey demo_state
     = (Inr (), demo_state\<lparr>collaborators := [''mk3'', ''mk1'']\<rparr>)
   \<and> demo_loadMasterKey demo_mk2 ''stale'' False [''mk1''] = (Inl InvalidPassword, [''mk1''])
   \<and> loadMasterKeys_loop demo_checkMasterKeyPassword demo_isMasterKeyLoaded demo_loadMasterKey
        ''mk1'' [demo_mk2, demo_mk3] (demo_state\<lparr>collaborators := [''mk1'']\<rparr>)
     = loadMasterKeys_loop demo_checkMasterKeyPassword demo_isMasterKeyLoaded demo_loadMasterKey
        ''mk1'' [demo_mk3] (demo_state\<lparr>collaborators := [''mk1'']\<rparr>)
   \<and> loadMasterKeys_loop demo_checkMasterKeyPassword demo_isMasterKeyLoaded demo_loadMasterKey
        ''mk1'' [demo_mk1, demo_mk2] (demo_state\<lparr>collaborators := [''mk1'']\<rparr>)
     = loadMasterKeys_loop demo_checkMasterKeyPassword demo_isMasterKeyLoaded demo_loadMasterKey
        ''mk1'' [demo_mk2] (demo_state\<lparr>collaborators := [''mk1'']\<rparr>)
   \<and> loadMasterKeys_loop demo_checkMasterKeyPassword demo_isMasterKeyLoaded demo_loadMasterKey
        ''mk1'' [demo_mk3, demo_mk1] demo_legacy_state
     = loadMasterKeys_loop demo_checkMasterKeyPassword demo_isMasterKeyLoaded demo_loadMasterKey
        ''mk1'' [demo_mk1] demo_legacy_state"
proof -
  have run: "loadMasterKeysFromSettings demo_checkMasterKeyPassword demo_isMasterKeyLoaded
     demo_loadMasterKey demo_state
     = (Inr (), demo_state\<lparr>collaborators := [''mk3'', ''mk1'']\<rparr>)"
    by (simp add: loadMasterKeysFromSettings_def MasterKey_all_def getActiveMasterKeyId_def
          findMasterKeyPassword_def prog_defs demo_defs truthy_def)
  have bad: "demo_loadMasterKey demo_mk2 ''stale'' False [''mk1''] = (Inl InvalidPassword, [''mk1''])"
    by (simp add: demo_defs prog_defs)
  have failing: "loadMasterKeys_loop demo_checkMasterKeyPassword demo_isMasterKeyLoaded
        demo_loadMasterKey ''mk1'' [demo_mk2, demo_mk3] (demo_state\<lparr>collaborators := [''mk1'']\<rparr>)
     = loadMasterKeys_loop demo_checkMasterKeyPassword demo_isMasterKeyLoaded demo_loadMasterKey
        ''mk1'' [demo_mk3] (demo_state\<lparr>collaborators := [''mk1'']\<rparr>)"
    using loadMasterKeysFromSettings_never_raises [of demo_checkMasterKeyPassword
        demo_isMasterKeyLoaded demo_loadMasterKey "demo_state\<lparr>collaborators := [''mk1'']\<rparr>"
        demo_mk2 "''mk1''" "[demo_mk3]" "''stale''" InvalidPassword "[''mk1'']"]
    by (simp add: findMasterKeyPassword_def demo_defs prog_defs truthy_def
          del: loadMasterKeys_loop.simps)
  have loaded: "loadMasterKeys_loop demo_checkMasterKeyPassword demo_isMasterKeyLoaded
        demo_loadMasterKey ''mk1'' [demo_mk1, demo_mk2] (demo_state\<lparr>collaborators := [''mk1'']\<rparr>)
     = loadMasterKeys_loop demo_checkMasterKeyPassword demo_isMasterKeyLoaded demo_loadMasterKey
        ''mk1'' [demo_mk2] (demo_state\<lparr>collaborators := [''mk1'']\<rparr>)"
    using loadMasterKeysFromSettings_never_raises [of demo_checkMasterKeyPassword
        demo_isMasterKeyLoaded demo_loadMasterKey "demo_state\<lparr>collaborators := [''mk1'']\<rparr>"
        demo_mk1 "''mk1''" "[demo_mk2]"]
    by (simp add: demo_defs del: loadMasterKeys_loop.simps)
  have nopw: "loadMasterKeys_loop demo_checkMasterKeyPassword demo_isMasterKeyLoaded
        demo_loadMasterKey ''mk1'' [demo_mk3, demo_mk1] demo_legacy_state
     = loadMasterKeys_loop demo_checkMasterKeyPassword demo_isMasterKeyLoaded demo_loadMasterKey
        ''mk1'' [demo_mk1] demo_legacy_state"
    using loadMasterKeysFromSettings_never_raises [of demo_checkMasterKeyPassword
        demo_isMasterKeyLoaded demo_loadMasterKey demo_legacy_state
        demo_mk3 "''mk1''" "[demo_mk1]"]
    by (simp add: findMasterKeyPassword_def demo_defs truthy_def del: loadMasterKeys_loop.simps)
  from run bad failing loaded nopw show ?thesis by blast
qed

subsection \<open>The missing master key message\<close>

text \<open>
  What the loop computes: every flagged id of a known, disabled key removes one element
  from the end of the array, and nothing else does; so the length that is left counts
  the flagged ids that are unknown or belong to an enabled key.
\<close>

lemma showMissing_loop_length:
  assumes "c \<le> L" and "L \<le> length xs"
  shows "length (showMissing_loop mks c (take L xs))
     = L - length (filter (\<lambda>i. case find (\<lambda>mk. key_id mk = i) mks of
                                  None \<Rightarrow> False | Some mk \<Rightarrow> \<not> masterKeyEnabled mk)
                     (take c xs))"
  using assms
proof (induction c arbitrary: L)
  case 0
  then show ?case by simp
next
  case (Suc i)
  from Suc.prems have i: "i < L" "i < length xs" "i \<le> L" "i \<le> L - 1" "L - 1 \<le> length xs"
    by auto
  have nth: "take L xs ! i = xs ! i" using i by simp
  have len: "i < length (take L xs)" using i Suc.prems by simp
  have tk: "take (Suc i) xs = take i xs @ [xs ! i]"
    using i by (simp add: take_Suc_conv_app_nth)
  have bl: "butlast (take L xs) = take (L - 1) xs"
    using Suc.prems by (simp add: butlast_take)
  have count: "length (filter (\<lambda>i. case find (\<lambda>mk. key_id mk = i) mks of
                                  None \<Rightarrow> False | Some mk \<Rightarrow> \<not> masterKeyEnabled mk)
                     (take i xs)) \<le> i"
    by (metis length_filter_le length_take min.cobounded2 order_trans)
  show ?case
  proof (cases "find (\<lambda>mk. key_id mk = xs ! i) mks")
    case None
    with Suc.IH [of L] i Suc.prems len nth tk show ?thesis by simp
  next
    case (Some mk)
    show ?thesis
    proof (cases "masterKeyEnabled mk")
      case True
      with Some Suc.IH [of L] i Suc.prems len nth tk show ?thesis by simp
    next
      case False
      with Some Suc.IH [of "L - 1"] i len nth tk bl count show ?thesis by simp
    qed
  qed
qed

lemma showMissingMasterKeyMessage_iff:
  "showMissingMasterKeyMessage info notLoaded \<longleftrightarrow>
     masterKeys info \<noteq> [] \<and>
     (\<exists>i \<in> set notLoaded.
        case find (\<lambda>mk. key_id mk = i) (masterKeys info) of
          None \<Rightarrow> True
        | Some mk \<Rightarrow> masterKeyEnabled mk)"
proof -
  let ?bad = "\<lambda>i. case find (\<lambda>mk. key_id mk = i) (masterKeys info) of
                     None \<Rightarrow> False | Some mk \<Rightarrow> \<not> masterKeyEnabled mk"
  have len: "length (showMissing_loop (masterKeys info) (length notLoaded) notLoaded)
      = length notLoaded - length (filter ?bad notLoaded)"
    using showMissing_loop_length [of "length notLoaded" "length notLoaded" notLoaded
        "masterKeys info"]
    by simp
  have "length notLoaded - length (filter ?bad notLoaded) \<noteq> 0
      \<longleftrightarrow> (\<exists>i \<in> set notLoaded. \<not> ?bad i)"
  proof
    assume "length notLoaded - length (filter ?bad notLoaded) \<noteq> 0"
    then have "length (filter ?bad notLoaded) \<noteq> length notLoaded" by simp
    then have "filter ?bad notLoaded \<noteq> notLoaded" by metis
    then show "\<exists>i \<in> set notLoaded. \<not> ?bad i" by (metis filter_True)
  next
    assume "\<exists>i \<in> set notLoaded. \<not> ?bad i"
    then obtain i where "i \<in> set notLoaded" "\<not> ?bad i" by blast
    then have "length (filter ?bad notLoaded) < length notLoaded"
      by (rule length_filter_less)
    then show "length notLoaded - length (filter ?bad notLoaded) \<noteq> 0" by simp
  qed
  moreover have "(\<not> ?bad i) = (case find (\<lambda>mk. key_id mk = i) (masterKeys info) of
          None \<Rightarrow> True | Some mk \<Rightarrow> masterKeyEnabled mk)" for i
    by (simp split: option.splits)
  ultimately show ?thesis
    by (simp add: showMissingMasterKeyMessage_def len)
qed

text \<open>
  Claim C3 says that \<open>showMissingMasterKeyMessage\<close> is true exactly when the sync info
  has keys and some flagged id is the id of a known, enabled key, so that a flagged id
  of no known key never causes the message by itself. The code returns true for one
  known key and one flagged id that belongs to no key: line 163 goes on to the next
  index and leaves the id in the array whose length is the answer.
\<close>

theorem showMissingMasterKeyMessage_unknown_key:
  "find (\<lambda>mk. key_id mk = ''mk9'') [demo_mk1] = None
   \<and> showMissingMasterKeyMessage
        \<lparr>masterKeys = [demo_mk1], ppk = None, activeMasterKeyId = ''mk1'', e2ee = True\<rparr>
        [''mk9''] = True"
  by (simp add: showMissingMasterKeyMessage_def demo_mk1_def)

subsection \<open>The default master key and the validity check\<close>

lemma latest_loop_None:
  "latest_loop out mks = None \<longleftrightarrow> out = None \<and> mks = []"
  by (induction out mks rule: latest_loop.induct) (auto split: option.splits)

lemma latest_loop_Some:
  "latest_loop out mks = Some m \<Longrightarrow>
     (m \<in> set mks \<or> out = Some m)
     \<and> (\<forall>k \<in> set mks. created_time k \<le> created_time m)
     \<and> (\<forall>cur. out = Some cur \<longrightarrow> created_time cur \<le> created_time m)"
proof (induction out mks rule: latest_loop.induct)
  case (1 out)
  then show ?case by simp
next
  case (2 out mk mks)
  show ?case
  proof (cases out)
    case None
    with 2 show ?thesis by auto
  next
    case (Some cur)
    show ?thesis
    proof (cases "created_time cur < created_time mk")
      case True
      with 2 Some show ?thesis by fastforce
    next
      case False
      with 2 Some show ?thesis by fastforce
    qed
  qed
qed

lemma getDefaultMasterKey_None:
  "getDefaultMasterKey s = None \<longleftrightarrow> masterKeys (localSyncInfo s) = []"
  by (auto simp: getDefaultMasterKey_def getActiveMasterKey_def MasterKey_latest_def
        latest_loop_None find_None_iff split: option.splits if_splits)

lemma getDefaultMasterKey_Some:
  assumes "getDefaultMasterKey s = Some mk"
  shows "mk \<in> set (masterKeys (localSyncInfo s)) \<and>
     (if truthy (activeMasterKeyId (localSyncInfo s)) \<and>
         (\<exists>k \<in> set (masterKeys (localSyncInfo s)). key_id k = activeMasterKeyId (localSyncInfo s))
      then key_id mk = activeMasterKeyId (localSyncInfo s)
      else \<forall>k \<in> set (masterKeys (localSyncInfo s)). created_time k \<le> created_time mk)"
proof (cases "getActiveMasterKey (localSyncInfo s)")
  case None
  with assms have l: "latest_loop None (masterKeys (localSyncInfo s)) = Some mk"
    by (simp add: getDefaultMasterKey_def MasterKey_latest_def)
  from None have "\<not> (truthy (activeMasterKeyId (localSyncInfo s)) \<and>
         (\<exists>k \<in> set (masterKeys (localSyncInfo s)). key_id k = activeMasterKeyId (localSyncInfo s)))"
    by (auto simp: getActiveMasterKey_def find_None_iff split: if_splits)
  with latest_loop_Some [OF l] show ?thesis by auto
next
  case (Some a)
  with assms have "a = mk" by (simp add: getDefaultMasterKey_def)
  with Some show ?thesis
    by (auto simp: getActiveMasterKey_def find_Some_iff split: if_splits)
qed

lemma masterPasswordIsValid_unfold:
  "masterPasswordIsValid ppkPasswordIsValid checkMasterKeyPassword pw s =
    (case ppk (localSyncInfo s) of
       Some pair \<Rightarrow> (Inr (ppkPasswordIsValid pair pw), s)
     | None \<Rightarrow> (case getDefaultMasterKey s of
         Some mk \<Rightarrow> (Inr (checkMasterKeyPassword mk pw), s)
       | None \<Rightarrow> (Inl NoKeyToDecrypt, s)))"
  by (simp add: masterPasswordIsValid_def prog_defs split: option.splits)

text \<open>
  Claim C6. \<open>masterPasswordIsValid\<close> raises \<open>NoKeyToDecrypt\<close> exactly when the sync info
  has neither a key pair nor a master key, and raises nothing else. With a key pair the
  result is the key pair's password check. Without one, and with some master key, the
  result is the password check against the default key, a key of the sync info: the one
  the active id names when it is set and names a key, and otherwise a key that no other
  key was created after. The call changes no state.
\<close>

theorem masterPasswordIsValid_cases:
  "(fst (masterPasswordIsValid ppkPasswordIsValid checkMasterKeyPassword pw s) = Inl NoKeyToDecrypt
      \<longleftrightarrow> ppk (localSyncInfo s) = None \<and> masterKeys (localSyncInfo s) = [])
   \<and> (\<forall>e. fst (masterPasswordIsValid ppkPasswordIsValid checkMasterKeyPassword pw s) = Inl e
        \<longrightarrow> e = NoKeyToDecrypt)
   \<and> (\<forall>pair. ppk (localSyncInfo s) = Some pair \<longrightarrow>
        fst (masterPasswordIsValid ppkPasswordIsValid checkMasterKeyPassword pw s)
          = Inr (ppkPasswordIsValid pair pw))
   \<and> (ppk (localSyncInfo s) = None \<and> masterKeys (localSyncInfo s) \<noteq> [] \<longrightarrow>
        (\<exists>mk. getDefaultMasterKey s = Some mk
           \<and> fst (masterPasswordIsValid ppkPasswordIsValid checkMasterKeyPassword pw s)
               = Inr (checkMasterKeyPassword mk pw)
           \<and> mk \<in> set (masterKeys (localSyncInfo s))
           \<and> (if truthy (activeMasterKeyId (localSyncInfo s)) \<and>
                  (\<exists>k \<in> set (masterKeys (localSyncInfo s)).
                     key_id k = activeMasterKeyId (localSyncInfo s))
               then key_id mk = activeMasterKeyId (localSyncInfo s)
               else \<forall>k \<in> set (masterKeys (localSyncInfo s)).
                      created_time k \<le> created_time mk)))
   \<and> snd (masterPasswordIsValid ppkPasswordIsValid checkMasterKeyPassword pw s) = s"
proof -
  let ?r = "masterPasswordIsValid ppkPasswordIsValid checkMasterKeyPassword pw s"
  have a: "fst ?r = Inl NoKeyToDecrypt
      \<longleftrightarrow> ppk (localSyncInfo s) = None \<and> masterKeys (localSyncInfo s) = []"
    using getDefaultMasterKey_None [of s]
    by (auto simp: masterPasswordIsValid_unfold split: option.splits)
  have b: "\<forall>e. fst ?r = Inl e \<longrightarrow> e = NoKeyToDecrypt"
    by (auto simp: masterPasswordIsValid_unfold split: option.splits)
  have c: "\<forall>pair. ppk (localSyncInfo s) = Some pair \<longrightarrow> fst ?r = Inr (ppkPasswordIsValid pair pw)"
    by (simp add: masterPasswordIsValid_unfold)
  have d: "ppk (localSyncInfo s) = None \<and> masterKeys (localSyncInfo s) \<noteq> [] \<longrightarrow>
        (\<exists>mk. getDefaultMasterKey s = Some mk
           \<and> fst ?r = Inr (checkMasterKeyPassword mk pw)
           \<and> mk \<in> set (masterKeys (localSyncInfo s))
           \<and> (if truthy (activeMasterKeyId (localSyncInfo s)) \<and>
                  (\<exists>k \<in> set (masterKeys (localSyncInfo s)).
                     key_id k = activeMasterKeyId (localSyncInfo s))
               then key_id mk = activeMasterKeyId (localSyncInfo s)
               else \<forall>k \<in> set (masterKeys (localSyncInfo s)).
                      created_time k \<le> created_time mk))"
  proof (intro impI, elim conjE)
    assume np: "ppk (localSyncInfo s) = None" and ne: "masterKeys (localSyncInfo s) \<noteq> []"
    from ne obtain mk where mk: "getDefaultMasterKey s = Some mk"
      using getDefaultMasterKey_None [of s] by (cases "getDefaultMasterKey s") auto
    from np mk have "fst ?r = Inr (checkMasterKeyPassword mk pw)"
      by (simp add: masterPasswordIsValid_unfold)
    with mk getDefaultMasterKey_Some [OF mk]
    show "\<exists>mk. getDefaultMasterKey s = Some mk
           \<and> fst ?r = Inr (checkMasterKeyPassword mk pw)
           \<and> mk \<in> set (masterKeys (localSyncInfo s))
           \<and> (if truthy (activeMasterKeyId (localSyncInfo s)) \<and>
                  (\<exists>k \<in> set (masterKeys (localSyncInfo s)).
                     key_id k = activeMasterKeyId (localSyncInfo s))
               then key_id mk = activeMasterKeyId (localSyncInfo s)
               else \<forall>k \<in> set (masterKeys (localSyncInfo s)).
                      created_time k \<le> created_time mk)"
      by blast
  qed
  have e: "snd ?r = s"
    by (simp add: masterPasswordIsValid_unfold split: option.splits)
  from a b c d e show ?thesis by blast
qed

text \<open>
  No key at all: \<open>NoKeyToDecrypt\<close>. A key pair under pwA: valid. No key pair and the
  active key mk1 under pwA: valid. No key pair and no active key: the latest key mk2
  decides, and it is under pwC.
\<close>

theorem masterPasswordIsValid_cases_witness:
  "fst (masterPasswordIsValid demo_ppkPasswordIsValid demo_checkMasterKeyPassword ''abc''
          demo_keyless_state) = Inl NoKeyToDecrypt
   \<and> fst (masterPasswordIsValid demo_ppkPasswordIsValid demo_checkMasterKeyPassword ''pwA''
          demo_state) = Inr True
   \<and> getDefaultMasterKey demo_legacy_state = Some demo_mk1
   \<and> fst (masterPasswordIsValid demo_ppkPasswordIsValid demo_checkMasterKeyPassword ''pwA''
          demo_legacy_state) = Inr True
   \<and> getDefaultMasterKey (demo_legacy_state\<lparr>localSyncInfo :=
          (localSyncInfo demo_legacy_state)\<lparr>activeMasterKeyId := []\<rparr>\<rparr>) = Some demo_mk2
   \<and> fst (masterPasswordIsValid demo_ppkPasswordIsValid demo_checkMasterKeyPassword ''pwA''
          (demo_legacy_state\<lparr>localSyncInfo :=
          (localSyncInfo demo_legacy_state)\<lparr>activeMasterKeyId := []\<rparr>\<rparr>)) = Inr False"
  using masterPasswordIsValid_cases [of demo_ppkPasswordIsValid demo_checkMasterKeyPassword
      "''abc''" demo_keyless_state]
    masterPasswordIsValid_cases [of demo_ppkPasswordIsValid demo_checkMasterKeyPassword
      "''pwA''" demo_state]
    masterPasswordIsValid_cases [of demo_ppkPasswordIsValid demo_checkMasterKeyPassword
      "''pwA''" demo_legacy_state]
    masterPasswordIsValid_cases [of demo_ppkPasswordIsValid demo_checkMasterKeyPassword
      "''pwA''" "demo_legacy_state\<lparr>localSyncInfo :=
          (localSyncInfo demo_legacy_state)\<lparr>activeMasterKeyId := []\<rparr>\<rparr>"]
  by (simp add: getDefaultMasterKey_def getActiveMasterKey_def
        MasterKey_latest_def demo_defs truthy_def)

subsection \<open>The status of the master password\<close>

lemma getMasterPasswordStatus_unfold:
  "getMasterPasswordStatus pv chk s =
     (if \<not> truthy (masterPassword s) then (Inr NotSet, s)
      else case masterPasswordIsValid pv chk (masterPassword s) s of
             (Inr isValid, s') \<Rightarrow> (Inr (if isValid then Valid else Invalid), s')
           | (Inl err, s') \<Rightarrow>
               if code err = Some ''noKeyToDecrypt'' then (Inr Loaded, s') else (Inl err, s'))"
  by (simp add: getMasterPasswordStatus_def getMasterPassword_def prog_defs
        split: prod.splits sum.splits)

text \<open>
  Claim C5. In every state \<open>getMasterPasswordStatus\<close> returns \<open>NotSet\<close> exactly when no
  master password is stored (the stored one is empty). When one is stored, it returns
  \<open>Loaded\<close> exactly when \<open>masterPasswordIsValid\<close> raises \<open>NoKeyToDecrypt\<close> for it, \<open>Valid\<close>
  exactly when that check returns true and \<open>Invalid\<close> exactly when it returns false. It
  never returns \<open>Unknown\<close>, and it changes no state.
\<close>

theorem getMasterPasswordStatus_mapping:
  "(fst (getMasterPasswordStatus ppkPasswordIsValid checkMasterKeyPassword s) = Inr NotSet
      \<longleftrightarrow> \<not> truthy (masterPassword s))
   \<and> (truthy (masterPassword s) \<longrightarrow>
        (fst (getMasterPasswordStatus ppkPasswordIsValid checkMasterKeyPassword s) = Inr Loaded
           \<longleftrightarrow> fst (masterPasswordIsValid ppkPasswordIsValid checkMasterKeyPassword
                      (masterPassword s) s) = Inl NoKeyToDecrypt)
      \<and> (fst (getMasterPasswordStatus ppkPasswordIsValid checkMasterKeyPassword s) = Inr Valid
           \<longleftrightarrow> fst (masterPasswordIsValid ppkPasswordIsValid checkMasterKeyPassword
                      (masterPassword s) s) = Inr True)
      \<and> (fst (getMasterPasswordStatus ppkPasswordIsValid checkMasterKeyPassword s) = Inr Invalid
           \<longleftrightarrow> fst (masterPasswordIsValid ppkPasswordIsValid checkMasterKeyPassword
                      (masterPassword s) s) = Inr False))
   \<and> fst (getMasterPasswordStatus ppkPasswordIsValid checkMasterKeyPassword s) \<noteq> Inr Unknown
   \<and> snd (getMasterPasswordStatus ppkPasswordIsValid checkMasterKeyPassword s) = s"
  by (auto simp: getMasterPasswordStatus_unfold masterPasswordIsValid_unfold NoKeyToDecrypt_def
        split: option.splits)

text \<open>
  No password stored: \<open>NotSet\<close>. A password and nothing to check it against: \<open>Loaded\<close>.
  The password the key pair is under: \<open>Valid\<close>. Another password: \<open>Invalid\<close>.
\<close>

theorem getMasterPasswordStatus_mapping_witness:
  "fst (getMasterPasswordStatus demo_ppkPasswordIsValid demo_checkMasterKeyPassword
          demo_legacy_state) = Inr NotSet
   \<and> fst (getMasterPasswordStatus demo_ppkPasswordIsValid demo_checkMasterKeyPassword
          demo_keyless_state) = Inr Loaded
   \<and> fst (getMasterPasswordStatus demo_ppkPasswordIsValid demo_checkMasterKeyPassword
          demo_state) = Inr Valid
   \<and> fst (getMasterPasswordStatus demo_ppkPasswordIsValid demo_checkMasterKeyPassword
          (demo_state\<lparr>masterPassword := ''wrong''\<rparr>)) = Inr Invalid"
  using getMasterPasswordStatus_mapping [of demo_ppkPasswordIsValid demo_checkMasterKeyPassword
      demo_legacy_state]
    getMasterPasswordStatus_mapping [of demo_ppkPasswordIsValid demo_checkMasterKeyPassword
      demo_keyless_state]
    getMasterPasswordStatus_mapping [of demo_ppkPasswordIsValid demo_checkMasterKeyPassword
      demo_state]
    getMasterPasswordStatus_mapping [of demo_ppkPasswordIsValid demo_checkMasterKeyPassword
      "demo_state\<lparr>masterPassword := ''wrong''\<rparr>"]
  by (simp add: masterPasswordIsValid_unfold getDefaultMasterKey_def getActiveMasterKey_def
        MasterKey_latest_def demo_defs truthy_def NoKeyToDecrypt_def)

subsection \<open>Migration\<close>

text \<open>
  Claim C7. \<open>migrateMasterPassword\<close> is idempotent: from every state, a second call
  right after the first returns as the first did and leaves the state the first call
  left, so the master password and the password cache are those of one call.
\<close>

theorem migrateMasterPassword_idempotent:
  "migrateMasterPassword (snd (migrateMasterPassword s)) = migrateMasterPassword s"
  by (simp add: migrateMasterPassword_def prog_defs truthy_def present_def
       split: option.splits)

text \<open>
  On the legacy state the first call promotes the active key's cached password pwA
  and purges it from the cache; the second call changes nothing.
\<close>

theorem migrateMasterPassword_idempotent_witness:
  "migrateMasterPassword demo_legacy_state
     = (Inr (), demo_legacy_state\<lparr>masterPassword := ''pwA'',
                  passwordCache := [''mk2'' \<mapsto> ''pwC'']\<rparr>)
   \<and> migrateMasterPassword (snd (migrateMasterPassword demo_legacy_state))
     = (Inr (), demo_legacy_state\<lparr>masterPassword := ''pwA'',
                  passwordCache := [''mk2'' \<mapsto> ''pwC'']\<rparr>)"
proof -
  have cache: "purgeCache [''mk1'' \<mapsto> ''pwA'', ''mk2'' \<mapsto> ''pwC''] ''pwA'' = [''mk2'' \<mapsto> ''pwC'']"
    by (rule ext) (simp add: purgeCache_def)
  have once: "migrateMasterPassword demo_legacy_state
     = (Inr (), demo_legacy_state\<lparr>masterPassword := ''pwA'',
                  passwordCache := [''mk2'' \<mapsto> ''pwC'']\<rparr>)"
    by (simp add: migrateMasterPassword_def prog_defs getActiveMasterKey_def demo_defs
          truthy_def present_def cache)
  with migrateMasterPassword_idempotent [of demo_legacy_state] show ?thesis by simp
qed

subsection \<open>The password change is all or nothing\<close>

lemma sameStore_collaborators: "sameStore s (s\<lparr>collaborators := w\<rparr>)"
  by (simp add: sameStore_def)

lemma reencrypt_loop_store:
  "sameStore s (snd (reencrypt_loop reenc cur new mks acc s))"
proof (induction mks arbitrary: s acc)
  case Nil
  show ?case by (simp add: prog_defs sameStore_def)
next
  case (Cons mk mks)
  have step: "sameStore s
      (snd (reencrypt_loop reenc cur new mks acc' (s\<lparr>collaborators := w\<rparr>)))" for w acc'
    using Cons.IH [of "s\<lparr>collaborators := w\<rparr>"] by (simp add: sameStore_def)
  show ?case
    using step
    by (simp add: prog_defs sameStore_collaborators split: prod.splits sum.splits)
qed

lemma reencrypt_loop_fails:
  assumes "\<exists>mk \<in> set mks. \<forall>w. \<exists>e w'. reenc mk cur new w = (Inl e, w')"
  shows "\<exists>e. fst (reencrypt_loop reenc cur new mks acc s) = Inl e"
  using assms
proof (induction mks arbitrary: s acc)
  case Nil
  then show ?case by simp
next
  case (Cons mk mks)
  obtain r w' where run: "reenc mk cur new (collaborators s) = (r, w')"
    by (cases "reenc mk cur new (collaborators s)")
  show ?case
  proof (cases r)
    case (Inl e)
    with run show ?thesis by (simp add: prog_defs)
  next
    case (Inr k)
    with run Cons.prems have "\<exists>mk \<in> set mks. \<forall>w. \<exists>e w'. reenc mk cur new w = (Inl e, w')"
      by (metis Inl_Inr_False Pair_inject set_ConsD)
    from Cons.IH [OF this, of "acc @ [k]" "s\<lparr>collaborators := w'\<rparr>"] run Inr
    show ?thesis by (simp add: prog_defs)
  qed
qed

lemma save_loop_eq: "save_loop ks t = (Inr (), foldl (\<lambda>st mk. MasterKey_save mk st) t ks)"
  by (induction ks arbitrary: t) (simp_all add: prog_defs)

lemma updateMasterPassword_raise_keeps_store:
  assumes "fst (updateMasterPassword reenc pkreenc callback cur new s) = Inl e"
  shows "sameStore s (snd (updateMasterPassword reenc pkreenc callback cur new s))"
proof -
  obtain r1 s1 where
    loop: "reencrypt_loop reenc cur new (masterKeys (localSyncInfo s)) [] s = (r1, s1)"
    by (cases "reencrypt_loop reenc cur new (masterKeys (localSyncInfo s)) [] s")
  have s1: "sameStore s s1"
    using reencrypt_loop_store [of s reenc cur new "masterKeys (localSyncInfo s)" "[]"] loop
    by simp
  show ?thesis
    using assms s1
    by (auto simp: updateMasterPassword_def prog_defs loop sameStore_def save_loop_eq
          split: if_splits sum.splits option.splits prod.splits)
qed

lemma updateMasterPassword_raises:
  assumes "(\<exists>mk \<in> set (masterKeys (localSyncInfo s)).
              \<forall>w. \<exists>e w'. reenc mk cur new w = (Inl e, w'))
    \<or> (\<exists>pair. ppk (localSyncInfo s) = Some pair \<and>
              (\<forall>w. \<exists>e w'. pkreenc pair cur new w = (Inl e, w')))"
  shows "\<exists>e. fst (updateMasterPassword reenc pkreenc callback cur new s) = Inl e"
proof -
  obtain r1 s1 where
    loop: "reencrypt_loop reenc cur new (masterKeys (localSyncInfo s)) [] s = (r1, s1)"
    by (cases "reencrypt_loop reenc cur new (masterKeys (localSyncInfo s)) [] s")
  have s1: "sameStore s s1"
    using reencrypt_loop_store [of s reenc cur new "masterKeys (localSyncInfo s)" "[]"] loop
    by simp
  have guard: "present (ppk (localSyncInfo s)) \<or> 0 < length (masterKeys (localSyncInfo s))"
    using assms by (auto simp: present_def)
  show ?thesis
  proof (cases "truthy cur")
    case False
    with guard show ?thesis by (auto simp: updateMasterPassword_def prog_defs)
  next
    case True
    show ?thesis
    proof (cases r1)
      case (Inl e)
      with guard True loop show ?thesis by (auto simp: updateMasterPassword_def prog_defs)
    next
      case (Inr ks)
      have "\<not> (\<exists>mk \<in> set (masterKeys (localSyncInfo s)).
                 \<forall>w. \<exists>e w'. reenc mk cur new w = (Inl e, w'))"
      proof
        assume "\<exists>mk \<in> set (masterKeys (localSyncInfo s)).
                  \<forall>w. \<exists>e w'. reenc mk cur new w = (Inl e, w')"
        then have "\<exists>e. fst (reencrypt_loop reenc cur new (masterKeys (localSyncInfo s)) [] s)
            = Inl e"
          by (rule reencrypt_loop_fails)
        with loop Inr show False by simp
      qed
      with assms obtain pair where pair: "ppk (localSyncInfo s) = Some pair"
        and bad: "\<forall>w. \<exists>e w'. pkreenc pair cur new w = (Inl e, w')" by blast
      from bad obtain e2 w2 where run: "pkreenc pair cur new (collaborators s1) = (Inl e2, w2)"
        by blast
      from s1 pair have "ppk (localSyncInfo s1) = Some pair" by (simp add: sameStore_def)
      with guard True loop Inr run show ?thesis
        by (auto simp: updateMasterPassword_def prog_defs)
    qed
  qed
qed

text \<open>
  Claim C1. Whenever the re-encryption of some master key of the sync info, or of the
  key pair, fails (in whatever state the collaborator is called), \<open>updateMasterPassword\<close>
  raises an error; and whenever \<open>updateMasterPassword\<close> raises an error, nothing is
  persisted: the sync info (every key's ciphertext and the key pair), the master
  password and the password cache are what they were before the call, so the keys
  re-encrypted earlier in the call are dropped.
\<close>

theorem updateMasterPassword_all_or_nothing:
  "(((\<exists>mk \<in> set (masterKeys (localSyncInfo s)).
        \<forall>w. \<exists>e w'. reencryptMasterKey mk currentPassword newPassword w = (Inl e, w'))
     \<or> (\<exists>pair. ppk (localSyncInfo s) = Some pair \<and>
          (\<forall>w. \<exists>e w'. pkReencryptPrivateKey pair currentPassword newPassword w = (Inl e, w'))))
    \<longrightarrow> (\<exists>e. fst (updateMasterPassword reencryptMasterKey pkReencryptPrivateKey
                   waitForSyncFinishedThenSync currentPassword newPassword s) = Inl e))
   \<and> ((\<exists>e. fst (updateMasterPassword reencryptMasterKey pkReencryptPrivateKey
                   waitForSyncFinishedThenSync currentPassword newPassword s) = Inl e)
    \<longrightarrow> sameStore s (snd (updateMasterPassword reencryptMasterKey pkReencryptPrivateKey
                   waitForSyncFinishedThenSync currentPassword newPassword s)))"
  using updateMasterPassword_raises [of s reencryptMasterKey currentPassword newPassword
      pkReencryptPrivateKey waitForSyncFinishedThenSync]
    updateMasterPassword_raise_keeps_store [of reencryptMasterKey pkReencryptPrivateKey
      waitForSyncFinishedThenSync currentPassword newPassword s]
  by blast

text \<open>
  On the example state, with the current password pwA: the first key is re-encrypted,
  the second (under pwC) is not, the call raises the second key's error and leaves the
  state as it was, the first key under pwA.
\<close>

theorem updateMasterPassword_all_or_nothing_witness:
  "fst (demo_reencryptMasterKey demo_mk1 ''pwA'' ''pwB'' [])
     = Inr (demo_mk1\<lparr>content := ''pwB|mk1''\<rparr>)
   \<and> demo_reencryptMasterKey demo_mk2 ''pwA'' ''pwB'' [] = (Inl InvalidPassword, [])
   \<and> (\<exists>e. fst (updateMasterPassword demo_reencryptMasterKey demo_pkReencryptPrivateKey None
                 ''pwA'' ''pwB'' demo_state) = Inl e)
   \<and> sameStore demo_state
        (snd (updateMasterPassword demo_reencryptMasterKey demo_pkReencryptPrivateKey None
                 ''pwA'' ''pwB'' demo_state))
   \<and> updateMasterPassword demo_reencryptMasterKey demo_pkReencryptPrivateKey None
        ''pwA'' ''pwB'' demo_state
      = (Inl (masterKeyReencryptionFailed demo_mk2 InvalidPassword), demo_state)"
proof -
  have fails: "\<forall>w. \<exists>e w'. demo_reencryptMasterKey demo_mk2 ''pwA'' ''pwB'' w = (Inl e, w')"
    by (simp add: demo_defs prog_defs)
  have "demo_mk2 \<in> set (masterKeys (localSyncInfo demo_state))"
    by (simp add: demo_state_def)
  with fails have hyp: "\<exists>mk \<in> set (masterKeys (localSyncInfo demo_state)).
      \<forall>w. \<exists>e w'. demo_reencryptMasterKey mk ''pwA'' ''pwB'' w = (Inl e, w')"
    by blast
  have raised: "\<exists>e. fst (updateMasterPassword demo_reencryptMasterKey
      demo_pkReencryptPrivateKey None ''pwA'' ''pwB'' demo_state) = Inl e"
    using hyp updateMasterPassword_all_or_nothing [of demo_state demo_reencryptMasterKey
        "''pwA''" "''pwB''" demo_pkReencryptPrivateKey None]
    by blast
  then have kept: "sameStore demo_state
        (snd (updateMasterPassword demo_reencryptMasterKey demo_pkReencryptPrivateKey None
                 ''pwA'' ''pwB'' demo_state))"
    using updateMasterPassword_all_or_nothing [of demo_state demo_reencryptMasterKey
        "''pwA''" "''pwB''" demo_pkReencryptPrivateKey None]
    by blast
  have run: "updateMasterPassword demo_reencryptMasterKey demo_pkReencryptPrivateKey None
        ''pwA'' ''pwB'' demo_state
      = (Inl (masterKeyReencryptionFailed demo_mk2 InvalidPassword), demo_state)"
    by (simp add: updateMasterPassword_def prog_defs demo_defs truthy_def present_def)
  have ok1: "fst (demo_reencryptMasterKey demo_mk1 ''pwA'' ''pwB'' [])
     = Inr (demo_mk1\<lparr>content := ''pwB|mk1''\<rparr>)"
    by (simp add: demo_defs prog_defs)
  have bad2: "demo_reencryptMasterKey demo_mk2 ''pwA'' ''pwB'' [] = (Inl InvalidPassword, [])"
    by (simp add: demo_defs prog_defs)
  from ok1 bad2 raised kept run show ?thesis by blast
qed

subsection \<open>The current password is required when there is key material\<close>

text \<open>
  Claim C9. In every state with a master key or a key pair, \<open>updateMasterPassword\<close>
  with an empty current password raises \<open>MissingCurrentPassword\<close> and leaves the whole
  state as it was: the registry, the settings, and the collaborators, so that no
  re-encryption has run, whatever the re-encryption programs are.
\<close>

theorem updateMasterPassword_missing_current_password:
  "present (ppk (localSyncInfo s)) \<or> masterKeys (localSyncInfo s) \<noteq> [] \<Longrightarrow>
   updateMasterPassword reencryptMasterKey pkReencryptPrivateKey waitForSyncFinishedThenSync
     [] newPassword s = (Inl MissingCurrentPassword, s)"
  by (auto simp: updateMasterPassword_def prog_defs truthy_def)

theorem updateMasterPassword_missing_current_password_witness:
  "present (ppk (localSyncInfo demo_state))
   \<and> masterKeys (localSyncInfo demo_state) = [demo_mk1, demo_mk2, demo_mk3]
   \<and> updateMasterPassword demo_reencryptMasterKey demo_pkReencryptPrivateKey None [] ''pwB''
        demo_state = (Inl MissingCurrentPassword, demo_state)"
  using updateMasterPassword_missing_current_password [of demo_state demo_reencryptMasterKey
      demo_pkReencryptPrivateKey None "''pwB''"]
  by (simp add: demo_state_def present_def)

subsection \<open>Without key material the password is just stored\<close>

text \<open>
  Claim C10. In a state without master key and without key pair,
  \<open>updateMasterPassword oldPw newPw\<close> (no callback given) succeeds for every \<open>oldPw\<close>, the
  empty one included, and the state it leaves is the state before with the master
  password set to \<open>newPw\<close>; the collaborators are untouched, whatever the re-encryption
  programs are, so \<open>oldPw\<close> is checked against nothing.
\<close>

theorem updateMasterPassword_without_keys:
  "ppk (localSyncInfo s) = None \<Longrightarrow> masterKeys (localSyncInfo s) = [] \<Longrightarrow>
   updateMasterPassword reencryptMasterKey pkReencryptPrivateKey None oldPw newPw s
     = (Inr (), s\<lparr>masterPassword := newPw\<rparr>)"
  by (simp add: updateMasterPassword_def prog_defs present_def)

theorem updateMasterPassword_without_keys_witness:
  "ppk (localSyncInfo demo_keyless_state) = None
   \<and> masterKeys (localSyncInfo demo_keyless_state) = []
   \<and> updateMasterPassword demo_reencryptMasterKey demo_pkReencryptPrivateKey None [] ''pwB''
        demo_keyless_state = (Inr (), demo_keyless_state\<lparr>masterPassword := ''pwB''\<rparr>)
   \<and> updateMasterPassword demo_reencryptMasterKey demo_pkReencryptPrivateKey None ''wrong''
        ''pwB'' demo_keyless_state = (Inr (), demo_keyless_state\<lparr>masterPassword := ''pwB''\<rparr>)"
  using updateMasterPassword_without_keys [of demo_keyless_state demo_reencryptMasterKey
      demo_pkReencryptPrivateKey "[]" "''pwB''"]
    updateMasterPassword_without_keys [of demo_keyless_state demo_reencryptMasterKey
      demo_pkReencryptPrivateKey "''wrong''" "''pwB''"]
  by (simp add: demo_keyless_state_def)

subsection \<open>The master password is never stored empty\<close>

text \<open>
  The two operations that guard the write: \<open>migrateMasterPassword\<close> leaves the master
  password as it was or stores a non-empty one, and \<open>setupAndEnableEncryption\<close> stores
  the password it is given when that is non-empty and leaves the stored one otherwise.
\<close>

lemma migrateMasterPassword_never_empties:
  "masterPassword (snd (migrateMasterPassword s)) = masterPassword s
   \<or> truthy (masterPassword (snd (migrateMasterPassword s)))"
  by (simp add: migrateMasterPassword_def prog_defs split: option.splits)

lemma setupAndEnableEncryption_password:
  "masterPassword
     (snd (setupAndEnableEncryption chk isL load markAll mk pw s))
   = (case pw of
        None \<Rightarrow> masterPassword s
      | Some p \<Rightarrow> if truthy p then p else masterPassword s)"
proof -
  have keep: "masterPassword (snd (loadMasterKeysFromSettings chk isL load t)) = masterPassword t"
    for t
    using loadMasterKeysFromSettings_store [of t chk isL load] by (simp add: sameStore_def)
  show ?thesis
    by (simp add: setupAndEnableEncryption_def setEncryptionEnabled_def prog_defs keep
          split: option.splits prod.splits sum.splits)
qed

text \<open>
  Claim C2 says that no operation stores an empty master password: an empty password
  given to it is rejected or ignored, and the stored one stays. \<open>updateMasterPassword\<close>
  has no such guard on the new password (line 221): in the state without keys, where
  the password abc is stored, the call with an empty new password succeeds and the
  stored master password is empty afterwards.
\<close>

theorem updateMasterPassword_stores_empty_password:
  "masterPassword demo_keyless_state = ''abc''
   \<and> updateMasterPassword demo_reencryptMasterKey demo_pkReencryptPrivateKey None [] []
        demo_keyless_state = (Inr (), demo_keyless_state\<lparr>masterPassword := []\<rparr>)"
  by (simp add: updateMasterPassword_def prog_defs demo_keyless_state_def present_def)

end
